theory Spec2Isabelle
  imports Main "HOL-Library.Sublist" "HOL-Library.AList"
begin

section \<open>Data model\<close>

text \<open>
  The Python values that travel through the notebooks: tool arguments and results,
  message contents, the entries of an input dictionary and the human's resume value.
  A float is its mantissa and exponent. A dictionary is an association list: insertion
  order is kept, and a lookup goes through \<open>map_of\<close>. A message is a value too, so that a
  list may hold messages. A tool call is the dictionary with the keys \<open>name\<close>, \<open>args\<close>
  and \<open>id\<close> that the model attaches to its reply; the library types the id as
  \<open>Optional[str]\<close>.

  The three message classes are those the notebooks meet. Only an \<open>AIMessage\<close> has the
  attribute \<open>tool_calls\<close>; \<open>ToolMessage\<close> is the class both notebooks construct, with a
  content, an optional name and the id of the tool call it answers.
\<close>

datatype pyval =
    PNone
  | PBool bool
  | PInt int
  | PFloat int int
  | PStr string
  | PBytes string
  | PTuple "pyval list"
  | PList "pyval list"
  | PDict "(string \<times> pyval) list"
  | PMessage message
and message =
    HumanMessage pyval
  | AIMessage pyval "tool_call list"
  | ToolMessage pyval "string option" string
and tool_call = ToolCall (tc_name: string) (tc_args: pyval) (tc_id: "string option")

type_synonym dict = "(string \<times> pyval) list"

text \<open>\<^verbatim>\<open>d.get(key, default)\<close>\<close>

definition dict_get :: "dict \<Rightarrow> string \<Rightarrow> pyval \<Rightarrow> pyval" where
  "dict_get d key dflt = (case map_of d key of None \<Rightarrow> dflt | Some v \<Rightarrow> v)"

text \<open>The truth value Python gives a value in a condition.\<close>

fun truthy :: "pyval \<Rightarrow> bool" where
  "truthy PNone = False"
| "truthy (PBool b) = b"
| "truthy (PInt n) = (n \<noteq> 0)"
| "truthy (PFloat m e) = (m \<noteq> 0)"
| "truthy (PStr s) = (s \<noteq> [])"
| "truthy (PBytes b) = (b \<noteq> [])"
| "truthy (PTuple xs) = (xs \<noteq> [])"
| "truthy (PList xs) = (xs \<noteq> [])"
| "truthy (PDict d) = (d \<noteq> [])"
| "truthy (PMessage m) = True"

fun content :: "message \<Rightarrow> pyval" where
  "content (HumanMessage c) = c"
| "content (AIMessage c tcs) = c"
| "content (ToolMessage c n i) = c"

text \<open>
  \<open>tool_calls m = None\<close> is \<^verbatim>\<open>not hasattr(m, "tool_calls")\<close>; otherwise the attribute's
  value.
\<close>

fun tool_calls :: "message \<Rightarrow> tool_call list option" where
  "tool_calls (AIMessage c tcs) = Some tcs"
| "tool_calls (HumanMessage c) = None"
| "tool_calls (ToolMessage c n i) = None"

text \<open>
  Every exception of the notebooks is a value. \<open>ValueError\<close> and \<open>AssertionError\<close> come from
  the \<^verbatim>\<open>raise\<close> and \<^verbatim>\<open>assert\<close> statements written in the notebooks; \<open>KeyError\<close>,
  \<open>AttributeError\<close>, \<open>TypeError\<close>, \<open>IndexError\<close> and \<open>EOFError\<close> are raised by the Python
  runtime on a missing key, a missing attribute, an operation a type does not have, an
  index out of range and the end of the input;
  \<open>GraphInterrupt\<close> is the framework's suspension of a run, with the value shown to the
  human; \<open>External\<close> is a failure raised inside one of the libraries (a tool, the graph).
\<close>

datatype error =
    ValueError string
  | AssertionError
  | KeyError string
  | AttributeError string
  | TypeError string
  | IndexError string
  | EOFError
  | GraphInterrupt "(string \<times> pyval) list"
  | External string

text \<open>
  The state dictionary of the functions annotated \<^verbatim>\<open>state: State\<close>
  (\<^verbatim>\<open>class State(TypedDict)\<close>, \<open>messages\<close> a list): the entry \<open>messages\<close>, which may be
  missing (\<open>None\<close>), and every other entry (\<open>name\<close> and \<open>birthday\<close> in part 5). The
  dictionaries the nodes return are of the same shape.
\<close>

record State =
  messages :: "message list option"
  others :: dict

section \<open>Part 2: the router\<close>

text \<open>
  \<^verbatim>\<open>route_tools(state)\<close> accepts the state as a bare list of messages or as a dictionary.
  \<open>END\<close> is the framework's label and \<open>py_str\<close> is Python's \<^verbatim>\<open>str\<close> on the state,
  which the f-string of the error message calls; both are parameters.
\<close>

datatype route_input = StateList "message list" | StateDict State

definition route_tools :: "string \<Rightarrow> (State \<Rightarrow> string) \<Rightarrow> route_input \<Rightarrow> error + string" where
  "route_tools END py_str state =
     (case
        (case state of
           StateList l \<Rightarrow>
             (if l = [] then Inl (IndexError ''list index out of range'') else Inr (last l))
         | StateDict d \<Rightarrow>
             (let messages = (case messages d of None \<Rightarrow> [] | Some ms \<Rightarrow> ms)
              in if messages \<noteq> [] then Inr (last messages)
                 else Inl (ValueError
                   (''No messages found in input state to tool_edge: '' @ py_str d))))
      of
        Inl e \<Rightarrow> Inl e
      | Inr ai_message \<Rightarrow>
          (case tool_calls ai_message of
             Some tcs \<Rightarrow> if length tcs > 0 then Inr ''tools'' else Inr END
           | None \<Rightarrow> Inr END))"

text \<open>The messages list of a router input, when it has one.\<close>

fun messages_of :: "route_input \<Rightarrow> message list option" where
  "messages_of (StateList l) = Some l"
| "messages_of (StateDict d) = messages d"

section \<open>Part 2: the tool node\<close>

text \<open>
  A tool is an object of the library with a \<open>name\<close> and an \<open>invoke\<close> method. The call
  either returns a result or fails inside the library (\<open>Inl\<close>, with the library's
  description of the failure). \<^verbatim>\<open>json.dumps\<close> is a parameter of the node's model: it
  returns the text or fails on a value it cannot serialise.
\<close>

record tool =
  tool_name :: string
  invoke :: "pyval \<Rightarrow> string + pyval"

record BasicToolNode =
  tools_by_name :: "string \<rightharpoonup> tool"

text \<open>\<^verbatim>\<open>self.tools_by_name = {tool.name: tool for tool in tools}\<close>: a later tool wins.\<close>

definition BasicToolNode_init :: "tool list \<Rightarrow> BasicToolNode" where
  "BasicToolNode_init tools =
     \<lparr>tools_by_name = fold (\<lambda>t d. d(tool_name t \<mapsto> t)) tools Map.empty\<rparr>"

text \<open>
  The library's constructor \<^verbatim>\<open>ToolMessage(content=..., name=..., tool_call_id=...)\<close>
  validates its fields: \<open>tool_call_id\<close> has to be a string, so an id of \<open>None\<close> is refused.
\<close>

definition ToolMessage_init :: "pyval \<Rightarrow> string option \<Rightarrow> string option \<Rightarrow> error + message" where
  "ToolMessage_init c name tool_call_id =
     (case tool_call_id of
        None \<Rightarrow> Inl (External ''ValidationError: tool_call_id'')
      | Some i \<Rightarrow> Inr (ToolMessage c name i))"

text \<open>
  \<^verbatim>\<open>x[-1]\<close> and \<^verbatim>\<open>x.tool_calls\<close> on an arbitrary value. A dictionary of this model has
  no key \<open>-1\<close>; a number, \<open>None\<close> and a message cannot be indexed; only a message can
  have the attribute.
\<close>

fun py_last :: "pyval \<Rightarrow> error + pyval" where
  "py_last (PList xs) =
     (if xs = [] then Inl (IndexError ''list index out of range'') else Inr (last xs))"
| "py_last (PTuple xs) =
     (if xs = [] then Inl (IndexError ''tuple index out of range'') else Inr (last xs))"
| "py_last (PStr s) =
     (if s = [] then Inl (IndexError ''string index out of range'') else Inr (PStr [last s]))"
| "py_last (PBytes b) =
     (if b = [] then Inl (IndexError ''index out of range'')
      else Inr (PInt (int (of_char (last b)))))"
| "py_last (PDict d) = Inl (KeyError ''-1'')"
| "py_last v = Inl (TypeError ''object is not subscriptable'')"

fun attr_tool_calls :: "pyval \<Rightarrow> tool_call list option" where
  "attr_tool_calls (PMessage m) = tool_calls m"
| "attr_tool_calls v = None"

text \<open>
  The \<^verbatim>\<open>for tool_call in message.tool_calls\<close> loop, with its accumulator \<open>outputs\<close>.
  Invoking a tool is an effect, so the loop also keeps the list of the invocations made
  so far (tool name and arguments, in order). A tool that is not registered is a
  \<open>KeyError\<close> of the dictionary lookup; a failure of the tool, of \<^verbatim>\<open>json.dumps\<close> or of
  the message constructor leaves the loop at once.
\<close>

type_synonym invocation = "string \<times> pyval"

fun tool_loop :: "(pyval \<Rightarrow> string + string) \<Rightarrow> (string \<rightharpoonup> tool) \<Rightarrow> tool_call list \<Rightarrow>
    message list \<Rightarrow> invocation list \<Rightarrow> invocation list \<times> (error + message list)" where
  "tool_loop json_dumps by_name [] outputs invoked = (invoked, Inr outputs)"
| "tool_loop json_dumps by_name (tc # rest) outputs invoked =
     (case by_name (tc_name tc) of
        None \<Rightarrow> (invoked, Inl (KeyError (tc_name tc)))
      | Some t \<Rightarrow>
          (case invoke t (tc_args tc) of
             Inl failure \<Rightarrow> (invoked @ [(tc_name tc, tc_args tc)], Inl (External failure))
           | Inr tool_result \<Rightarrow>
               (case json_dumps tool_result of
                  Inl failure \<Rightarrow>
                    (invoked @ [(tc_name tc, tc_args tc)], Inl (External failure))
                | Inr dumped \<Rightarrow>
                    (case ToolMessage_init (PStr dumped) (Some (tc_name tc)) (tc_id tc) of
                       Inl e \<Rightarrow> (invoked @ [(tc_name tc, tc_args tc)], Inl e)
                     | Inr m \<Rightarrow>
                         tool_loop json_dumps by_name rest (outputs @ [m])
                           (invoked @ [(tc_name tc, tc_args tc)])))))"

text \<open>
  \<^verbatim>\<open>BasicToolNode.__call__(self, inputs: dict)\<close>: the invocations made, and the error raised
  or the dictionary \<^verbatim>\<open>{"messages": outputs}\<close> returned. The input is any dictionary: the
  guard tests the truth value of whatever \<^verbatim>\<open>inputs.get("messages", [])\<close> returns.
\<close>

definition BasicToolNode_call :: "(pyval \<Rightarrow> string + string) \<Rightarrow> BasicToolNode \<Rightarrow> dict \<Rightarrow>
    invocation list \<times> (error + State)" where
  "BasicToolNode_call json_dumps self inputs =
     (let messages = dict_get inputs ''messages'' (PList [])
      in if truthy messages then
           (case py_last messages of
              Inl e \<Rightarrow> ([], Inl e)
            | Inr message \<Rightarrow>
                (case attr_tool_calls message of
                   None \<Rightarrow> ([], Inl (AttributeError ''tool_calls''))
                 | Some tcs \<Rightarrow>
                     (case tool_loop json_dumps (tools_by_name self) tcs [] [] of
                        (invoked, Inl e) \<Rightarrow> (invoked, Inl e)
                      | (invoked, Inr outputs) \<Rightarrow>
                          (invoked, Inr \<lparr>messages = Some outputs, others = []\<rparr>))))
         else ([], Inl (ValueError ''No message found in input'')))"

text \<open>A state, seen as the plain dictionary the tool node receives from the graph.\<close>

definition State_as_dict :: "State \<Rightarrow> dict" where
  "State_as_dict state =
     (case messages state of
        None \<Rightarrow> []
      | Some ms \<Rightarrow> [(''messages'', PList (map PMessage ms))])
     @ AList.delete ''messages'' (others state)"

section \<open>The model node\<close>

text \<open>
  \<^verbatim>\<open>llm_with_tools.invoke\<close> is the hosted model: an uninterpreted function from the message
  history to the reply. Part 2:
  \<^verbatim>\<open>return {"messages": [llm_with_tools.invoke(state["messages"])]}\<close>.
\<close>

definition chatbot :: "(message list \<Rightarrow> message) \<Rightarrow> State \<Rightarrow> error + State" where
  "chatbot llm_with_tools state =
     (case messages state of
        None \<Rightarrow> Inl (KeyError ''messages'')
      | Some history \<Rightarrow> Inr \<lparr>messages = Some [llm_with_tools history], others = []\<rparr>)"

text \<open>Part 5 adds \<^verbatim>\<open>assert len(message.tool_calls) <= 1\<close> before the return.\<close>

definition chatbot_part_5 :: "(message list \<Rightarrow> message) \<Rightarrow> State \<Rightarrow> error + State" where
  "chatbot_part_5 llm_with_tools state =
     (case messages state of
        None \<Rightarrow> Inl (KeyError ''messages'')
      | Some history \<Rightarrow>
          (let message = llm_with_tools history
           in case tool_calls message of
                None \<Rightarrow> Inl (AttributeError ''tool_calls'')
              | Some tcs \<Rightarrow>
                  if length tcs \<le> 1 then Inr \<lparr>messages = Some [message], others = []\<rparr>
                  else Inl AssertionError))"

section \<open>Part 5: the human review tool\<close>

text \<open>\<^verbatim>\<open>str.lower\<close> and \<^verbatim>\<open>str.startswith\<close>, on the ASCII letters a \<open>string\<close> holds.\<close>

definition lower_char :: "char \<Rightarrow> char" where
  "lower_char c =
     (case map_of (zip ''ABCDEFGHIJKLMNOPQRSTUVWXYZ'' ''abcdefghijklmnopqrstuvwxyz'') c of
        Some l \<Rightarrow> l
      | None \<Rightarrow> c)"

definition lower :: "string \<Rightarrow> string" where
  "lower s = map lower_char s"

definition startswith :: "string \<Rightarrow> string \<Rightarrow> bool" where
  "startswith s p = (take (length p) s = p)"

datatype Command = Command (update: State)

text \<open>The value the tool hands to \<^verbatim>\<open>interrupt\<close>: the question and the proposed fields.\<close>

definition interrupt_value :: "string \<Rightarrow> string \<Rightarrow> dict" where
  "interrupt_value name birthday =
     [(''question'', PStr ''Is this correct?''), (''name'', PStr name), (''birthday'', PStr birthday)]"

text \<open>
  \<^verbatim>\<open>human_assistance(name, birthday, tool_call_id)\<close>. The framework's \<^verbatim>\<open>interrupt\<close> suspends
  the run while there is no resume value (\<open>resume = None\<close>) and returns the value once
  the human has given one; the value is whatever the human passed. Only a dictionary
  has the method \<^verbatim>\<open>get\<close>. Of the values of this model, a \<open>str\<close> and a \<open>bytes\<close> have the
  method \<^verbatim>\<open>lower\<close>, and \<^verbatim>\<open>startswith("y")\<close> on a \<open>bytes\<close> is a type error. \<open>py_str\<close> is
  Python's \<^verbatim>\<open>str\<close> on the payload, called by the f-string.
\<close>

definition human_assistance ::
    "(dict \<Rightarrow> string) \<Rightarrow> string \<Rightarrow> string \<Rightarrow> string \<Rightarrow> pyval option \<Rightarrow> error + Command" where
  "human_assistance py_str name birthday tool_call_id resume =
     (case resume of
        None \<Rightarrow> Inl (GraphInterrupt (interrupt_value name birthday))
      | Some resumed \<Rightarrow>
          (case resumed of
             PDict human_response \<Rightarrow>
               (case dict_get human_response ''correct'' (PStr '''') of
                  PStr correct \<Rightarrow>
                    (let (verified_name, verified_birthday, response) =
                           (if startswith (lower correct) ''y''
                            then (PStr name, PStr birthday, ''Correct'')
                            else (dict_get human_response ''name'' (PStr name),
                                  dict_get human_response ''birthday'' (PStr birthday),
                                  ''Made a correction: '' @ py_str human_response))
                     in Inr (Command
                          \<lparr>messages = Some [ToolMessage (PStr response) None tool_call_id],
                           others = [(''name'', verified_name),
                                     (''birthday'', verified_birthday)]\<rparr>))
                | PBytes b \<Rightarrow>
                    Inl (TypeError ''startswith first arg must be bytes or a tuple of bytes'')
                | _ \<Rightarrow> Inl (AttributeError ''lower''))
           | _ \<Rightarrow> Inl (AttributeError ''get'')))"

section \<open>Merging a node's update into the shared state\<close>

text \<open>
  Modelled from the spec: the framework's reducer \<^verbatim>\<open>add_messages\<close>, which is not part of
  the notebooks. The spec describes the message history as append-only and
  order-preserving: the messages a node returns are put after the history.
\<close>

definition add_messages :: "message list \<Rightarrow> message list \<Rightarrow> message list" where
  "add_messages left right = left @ right"

text \<open>
  Modelled from the spec: how the framework applies the dictionary a node returns. The
  \<open>messages\<close> entry goes through the reducer; every other returned entry overwrites the
  state's entry of that key; an entry the node does not return is kept.
\<close>

definition apply_update :: "State \<Rightarrow> State \<Rightarrow> State" where
  "apply_update state upd =
     \<lparr>messages =
        (case messages upd of
           None \<Rightarrow> messages state
         | Some new \<Rightarrow>
             Some (add_messages (case messages state of None \<Rightarrow> [] | Some old \<Rightarrow> old) new)),
      others = fold (\<lambda>(k, v). AList.update k v) (others upd) (others state)\<rparr>"

definition history :: "State \<Rightarrow> message list" where
  "history state = (case messages state of None \<Rightarrow> [] | Some ms \<Rightarrow> ms)"

text \<open>
  One step of a graph is one node of the notebooks run on the shared state, its update
  merged into the state. A node that raises completes no step and leaves the state as
  it was. \<open>run_nodes\<close> runs a sequence of nodes and stops at the first error.
\<close>

datatype node =
    Chatbot
  | ChatbotPart5
  | Tools
  | HumanAssistance string string string pyval

fun run_node :: "(message list \<Rightarrow> message) \<Rightarrow> (pyval \<Rightarrow> string + string) \<Rightarrow> BasicToolNode \<Rightarrow>
    (dict \<Rightarrow> string) \<Rightarrow> node \<Rightarrow> State \<Rightarrow> error + State" where
  "run_node llm js tool_node py_str Chatbot state =
     (case chatbot llm state of Inl e \<Rightarrow> Inl e | Inr upd \<Rightarrow> Inr (apply_update state upd))"
| "run_node llm js tool_node py_str ChatbotPart5 state =
     (case chatbot_part_5 llm state of Inl e \<Rightarrow> Inl e | Inr upd \<Rightarrow> Inr (apply_update state upd))"
| "run_node llm js tool_node py_str Tools state =
     (case snd (BasicToolNode_call js tool_node (State_as_dict state)) of
        Inl e \<Rightarrow> Inl e
      | Inr upd \<Rightarrow> Inr (apply_update state upd))"
| "run_node llm js tool_node py_str (HumanAssistance name birthday tool_call_id payload) state =
     (case human_assistance py_str name birthday tool_call_id (Some payload) of
        Inl e \<Rightarrow> Inl e
      | Inr cmd \<Rightarrow> Inr (apply_update state (update cmd)))"

fun run_nodes :: "(message list \<Rightarrow> message) \<Rightarrow> (pyval \<Rightarrow> string + string) \<Rightarrow> BasicToolNode \<Rightarrow>
    (dict \<Rightarrow> string) \<Rightarrow> node list \<Rightarrow> State \<Rightarrow> State \<times> error option" where
  "run_nodes llm js tool_node py_str [] state = (state, None)"
| "run_nodes llm js tool_node py_str (n # ns) state =
     (case run_node llm js tool_node py_str n state of
        Inl e \<Rightarrow> (state, Some e)
      | Inr state' \<Rightarrow> run_nodes llm js tool_node py_str ns state')"

section \<open>Part 2: the console loop\<close>

text \<open>
  What the notebook writes to the console is a list of strings. \<open>graph_stream\<close> is the
  compiled graph's \<^verbatim>\<open>stream\<close>: the events it yields (each a list of the values of one
  event dictionary) and, when the library fails after yielding them, the failure.
  \<open>py_str\<close> is Python's \<^verbatim>\<open>str\<close>, which \<^verbatim>\<open>print\<close> applies to a message content.
\<close>

fun print_values :: "(pyval \<Rightarrow> string) \<Rightarrow> State list \<Rightarrow> string list \<times> error option" where
  "print_values py_str [] = ([], None)"
| "print_values py_str (v # vs) =
     (case messages v of
        None \<Rightarrow> ([], Some (KeyError ''messages''))
      | Some ms \<Rightarrow>
          if ms = [] then ([], Some (IndexError ''list index out of range''))
          else (case print_values py_str vs of
                  (out, r) \<Rightarrow> ((''Assistant: '' @ py_str (content (last ms))) # out, r)))"

fun print_events :: "(pyval \<Rightarrow> string) \<Rightarrow> State list list \<Rightarrow> string list \<times> error option" where
  "print_events py_str [] = ([], None)"
| "print_events py_str (event # events) =
     (case print_values py_str event of
        (out, Some e) \<Rightarrow> (out, Some e)
      | (out, None) \<Rightarrow>
          (case print_events py_str events of (out', r) \<Rightarrow> (out @ out', r)))"

definition stream_graph_updates :: "(pyval \<Rightarrow> string) \<Rightarrow> (State \<Rightarrow> State list list \<times> string option) \<Rightarrow>
    string \<Rightarrow> string list \<times> error option" where
  "stream_graph_updates py_str graph_stream user_input =
     (case graph_stream \<lparr>messages = Some [HumanMessage (PStr user_input)], others = []\<rparr> of
        (events, failure) \<Rightarrow>
          (case print_events py_str events of
             (out, Some e) \<Rightarrow> (out, Some e)
           | (out, None) \<Rightarrow> (out, map_option External failure)))"

text \<open>
  One pass through the body of \<^verbatim>\<open>while True\<close>. \<^verbatim>\<open>input("User: ")\<close> writes its prompt and
  returns a line or raises; the bare \<^verbatim>\<open>except\<close> catches whatever the \<^verbatim>\<open>try\<close> block raises,
  streams the fallback question and leaves the loop. The result is what was written,
  whether the loop goes on, and the error that leaves the handler, if any.
\<close>

datatype input_event = Line string | InputRaises error

datatype control = Continue | Break

definition loop_body :: "(pyval \<Rightarrow> string) \<Rightarrow> (State \<Rightarrow> State list list \<times> string option) \<Rightarrow>
    input_event \<Rightarrow> string list \<times> control \<times> error option" where
  "loop_body py_str graph_stream ev =
     (let handler = (\<lambda>written.
            let user_input = ''What do you know about LangGraph?''
            in case stream_graph_updates py_str graph_stream user_input of
                 (out, r) \<Rightarrow> (written @ [''User: '' @ user_input] @ out, Break, r))
      in case ev of
           InputRaises e \<Rightarrow> handler [''User: '']
         | Line user_input \<Rightarrow>
             if lower user_input \<in> set [''quit'', ''exit'', ''q'']
             then ([''User: '', ''Goodbye!''], Break, None)
             else (case stream_graph_updates py_str graph_stream user_input of
                     (out, None) \<Rightarrow> (''User: '' # out, Continue, None)
                   | (out, Some e) \<Rightarrow> handler (''User: '' # out)))"

text \<open>
  The loop over the lines the console supplies; at the end of the input, \<^verbatim>\<open>input\<close>
  raises \<open>EOFError\<close>.
\<close>

fun console_loop :: "(pyval \<Rightarrow> string) \<Rightarrow> (State \<Rightarrow> State list list \<times> string option) \<Rightarrow>
    input_event list \<Rightarrow> string list \<times> error option" where
  "console_loop py_str graph_stream [] =
     (case loop_body py_str graph_stream (InputRaises EOFError) of (out, c, r) \<Rightarrow> (out, r))"
| "console_loop py_str graph_stream (ev # rest) =
     (case loop_body py_str graph_stream ev of
        (out, Break, r) \<Rightarrow> (out, r)
      | (out, Continue, r) \<Rightarrow>
          (case console_loop py_str graph_stream rest of (out', r') \<Rightarrow> (out @ out', r')))"

text \<open>
  The errors that come from a \<^verbatim>\<open>raise\<close> or an \<^verbatim>\<open>assert\<close> statement written in the
  notebooks, as opposed to those of the Python runtime and of the libraries.
\<close>

fun raised_by_notebook :: "error \<Rightarrow> bool" where
  "raised_by_notebook (ValueError m) = True"
| "raised_by_notebook AssertionError = True"
| "raised_by_notebook e = False"

section \<open>Properties\<close>

subsection \<open>The router\<close>

text \<open>
  C1. On every state whose messages list is non-empty, \<open>route_tools\<close> returns the label
  \<open>tools\<close> when the last message has a \<open>tool_calls\<close> attribute with at least one entry
  and \<open>END\<close> otherwise; no other label is returned on such a state.
\<close>

theorem route_tools_label:
  assumes "messages_of state = Some ms" and "ms \<noteq> []"
  shows "route_tools END py_str state =
           Inr (if (\<exists>tcs. tool_calls (last ms) = Some tcs \<and> tcs \<noteq> []) then ''tools'' else END)
         \<and> route_tools END py_str state \<in> {Inr ''tools'', Inr END}"
proof (cases state)
  case (StateList l)
  with assms show ?thesis
    by (cases "tool_calls (last ms)") (auto simp: route_tools_def)
next
  case (StateDict d)
  with assms show ?thesis
    by (cases "tool_calls (last ms)") (auto simp: route_tools_def)
qed

theorem route_tools_label_witness:
  "route_tools ''__end__'' (\<lambda>d. ''{}'')
     (StateDict \<lparr>messages = Some [HumanMessage (PStr ''hi''),
        AIMessage (PStr '''') [ToolCall ''search'' (PDict [(''query'', PStr ''x'')]) (Some ''c1'')]],
        others = []\<rparr>) = Inr ''tools''
   \<and> route_tools ''__end__'' (\<lambda>d. ''{}'')
       (StateList [AIMessage (PStr ''done'') []]) = Inr ''__end__''"
proof -
  have a: "messages_of (StateDict \<lparr>messages = Some [HumanMessage (PStr ''hi''),
        AIMessage (PStr '''') [ToolCall ''search'' (PDict [(''query'', PStr ''x'')]) (Some ''c1'')]],
        others = []\<rparr>) = Some [HumanMessage (PStr ''hi''),
        AIMessage (PStr '''') [ToolCall ''search'' (PDict [(''query'', PStr ''x'')]) (Some ''c1'')]]"
    by simp
  have b: "messages_of (StateList [AIMessage (PStr ''done'') []]) = Some [AIMessage (PStr ''done'') []]"
    by simp
  show ?thesis
    using route_tools_label [OF a, of "''__end__''" "\<lambda>d. ''{}''"]
          route_tools_label [OF b, of "''__end__''" "\<lambda>d. ''{}''"]
    by simp
qed

subsection \<open>The model node\<close>

text \<open>
  C6, as stated, has the model node return its update on every state. In part 5 a
  reply with two tool calls stops the node at its assertion.
\<close>

theorem chatbot_part_5_no_update:
  "chatbot_part_5
     (\<lambda>history. AIMessage (PStr '''')
        [ToolCall ''tavily_search_results_json'' (PDict [(''query'', PStr ''x'')]) (Some ''c1''),
         ToolCall ''human_assistance'' (PDict []) (Some ''c2'')])
     \<lparr>messages = Some [HumanMessage (PStr ''hi'')], others = []\<rparr>
   = Inl AssertionError"
  by (simp add: chatbot_part_5_def)

text \<open>
  C6 (amended). On every state (a \<open>State\<close> dictionary, with its \<open>messages\<close> entry), the
  model node passes the whole message history to the bound model. The node of part 2 always returns the update whose messages list is the
  one-element list of the model's reply; the node of part 5 returns that update when the
  reply carries at most one tool call and raises \<open>AssertionError\<close> when it carries two or
  more. Both read no entry of the state but \<open>messages\<close>,
  and the update has no entry but \<open>messages\<close>.
\<close>

theorem chatbot_update:
  assumes "messages state = Some hist"
  shows "chatbot llm state = Inr \<lparr>messages = Some [llm hist], others = []\<rparr>
       \<and> (\<forall>tcs. tool_calls (llm hist) = Some tcs \<and> length tcs \<le> 1 \<longrightarrow>
            chatbot_part_5 llm state = Inr \<lparr>messages = Some [llm hist], others = []\<rparr>)
       \<and> (\<forall>tcs. tool_calls (llm hist) = Some tcs \<and> 2 \<le> length tcs \<longrightarrow>
            chatbot_part_5 llm state = Inl AssertionError)
       \<and> (\<forall>state'. messages state' = messages state \<longrightarrow>
            chatbot llm state' = chatbot llm state
          \<and> chatbot_part_5 llm state' = chatbot_part_5 llm state)"
  using assms by (simp add: chatbot_def chatbot_part_5_def)

theorem chatbot_update_witness:
  "chatbot (\<lambda>h. AIMessage (PStr ''hello'') [])
      \<lparr>messages = Some [HumanMessage (PStr ''hi'')], others = [(''name'', PStr ''LangGraph'')]\<rparr>
     = Inr \<lparr>messages = Some [AIMessage (PStr ''hello'') []], others = []\<rparr>
   \<and> chatbot_part_5 (\<lambda>h. AIMessage (PStr ''hello'') [])
      \<lparr>messages = Some [HumanMessage (PStr ''hi'')], others = [(''name'', PStr ''LangGraph'')]\<rparr>
     = Inr \<lparr>messages = Some [AIMessage (PStr ''hello'') []], others = []\<rparr>"
proof -
  have h: "messages \<lparr>messages = Some [HumanMessage (PStr ''hi'')],
             others = [(''name'', PStr ''LangGraph'')]\<rparr> = Some [HumanMessage (PStr ''hi'')]"
    by simp
  show ?thesis
    using chatbot_update [OF h, of "\<lambda>h. AIMessage (PStr ''hello'') []"] by simp
qed

text \<open>
  C9. In part 5 the model node, run on a state with its \<open>messages\<close> entry, asserts that
  the model's reply has at most one tool call: on a
  reply with two or more tool calls it raises \<open>AssertionError\<close> and returns no update; on
  a reply with no or one tool call the assertion passes and the update is returned.
\<close>

theorem chatbot_part_5_assert:
  assumes "messages state = Some hist" and "tool_calls (llm hist) = Some tcs"
  shows "(2 \<le> length tcs \<longrightarrow> chatbot_part_5 llm state = Inl AssertionError)
       \<and> (length tcs \<le> 1 \<longrightarrow>
            chatbot_part_5 llm state = Inr \<lparr>messages = Some [llm hist], others = []\<rparr>)"
  using assms by (simp add: chatbot_part_5_def)

theorem chatbot_part_5_assert_witness:
  "chatbot_part_5
     (\<lambda>h. AIMessage (PStr '''') [ToolCall ''a'' (PDict []) (Some ''c1''), ToolCall ''b'' (PDict []) (Some ''c2'')])
     \<lparr>messages = Some [], others = []\<rparr> = Inl AssertionError
   \<and> chatbot_part_5
     (\<lambda>h. AIMessage (PStr '''') [ToolCall ''a'' (PDict []) (Some ''c1'')])
     \<lparr>messages = Some [], others = []\<rparr>
     = Inr \<lparr>messages = Some [AIMessage (PStr '''') [ToolCall ''a'' (PDict []) (Some ''c1'')]], others = []\<rparr>"
proof -
  have h: "messages \<lparr>messages = Some [], others = []\<rparr> = Some []" by simp
  have two: "tool_calls ((\<lambda>h. AIMessage (PStr '''')
      [ToolCall ''a'' (PDict []) (Some ''c1''), ToolCall ''b'' (PDict []) (Some ''c2'')]) [])
      = Some [ToolCall ''a'' (PDict []) (Some ''c1''), ToolCall ''b'' (PDict []) (Some ''c2'')]" by simp
  have one: "tool_calls ((\<lambda>h. AIMessage (PStr '''') [ToolCall ''a'' (PDict []) (Some ''c1'')]) [])
      = Some [ToolCall ''a'' (PDict []) (Some ''c1'')]" by simp
  show ?thesis
    using chatbot_part_5_assert [OF h two] chatbot_part_5_assert [OF h one] by simp
qed

subsection \<open>The tool node\<close>

lemma tool_loop_all_return:
  assumes "\<forall>tc \<in> set tcs. \<exists>t r dumped j. by_name (tc_name tc) = Some t
             \<and> invoke t (tc_args tc) = Inr r \<and> js r = Inr dumped \<and> tc_id tc = Some j"
  shows "\<exists>new. tool_loop js by_name tcs outputs invoked =
             (invoked @ map (\<lambda>tc. (tc_name tc, tc_args tc)) tcs, Inr (outputs @ new))
           \<and> length new = length tcs
           \<and> (\<forall>i < length tcs. \<exists>t r dumped j. by_name (tc_name (tcs ! i)) = Some t
                 \<and> invoke t (tc_args (tcs ! i)) = Inr r \<and> js r = Inr dumped
                 \<and> tc_id (tcs ! i) = Some j
                 \<and> new ! i = ToolMessage (PStr dumped) (Some (tc_name (tcs ! i))) j)"
  using assms
proof (induction tcs arbitrary: outputs invoked)
  case Nil
  then show ?case by simp
next
  case (Cons tc rest)
  from Cons.prems obtain t r dumped j where
    t: "by_name (tc_name tc) = Some t" and r: "invoke t (tc_args tc) = Inr r"
    and dumped: "js r = Inr dumped" and j: "tc_id tc = Some j"
    by auto
  let ?m = "ToolMessage (PStr dumped) (Some (tc_name tc)) j"
  from Cons.prems have "\<forall>tc \<in> set rest. \<exists>t r dumped j. by_name (tc_name tc) = Some t
             \<and> invoke t (tc_args tc) = Inr r \<and> js r = Inr dumped \<and> tc_id tc = Some j"
    by simp
  from Cons.IH [OF this, of "outputs @ [?m]" "invoked @ [(tc_name tc, tc_args tc)]"]
  obtain new where
    run: "tool_loop js by_name rest (outputs @ [?m]) (invoked @ [(tc_name tc, tc_args tc)]) =
            ((invoked @ [(tc_name tc, tc_args tc)]) @ map (\<lambda>tc. (tc_name tc, tc_args tc)) rest,
             Inr ((outputs @ [?m]) @ new))"
    and len: "length new = length rest"
    and each: "\<forall>i < length rest. \<exists>t r dumped j. by_name (tc_name (rest ! i)) = Some t
                 \<and> invoke t (tc_args (rest ! i)) = Inr r \<and> js r = Inr dumped
                 \<and> tc_id (rest ! i) = Some j
                 \<and> new ! i = ToolMessage (PStr dumped) (Some (tc_name (rest ! i))) j"
    by blast
  have "tool_loop js by_name (tc # rest) outputs invoked =
          (invoked @ map (\<lambda>tc. (tc_name tc, tc_args tc)) (tc # rest), Inr (outputs @ (?m # new)))"
    using t r dumped j run by (simp add: ToolMessage_init_def)
  moreover have "length (?m # new) = length (tc # rest)"
    using len by simp
  moreover have "\<forall>i < length (tc # rest). \<exists>t r dumped j. by_name (tc_name ((tc # rest) ! i)) = Some t
                 \<and> invoke t (tc_args ((tc # rest) ! i)) = Inr r \<and> js r = Inr dumped
                 \<and> tc_id ((tc # rest) ! i) = Some j
                 \<and> (?m # new) ! i = ToolMessage (PStr dumped) (Some (tc_name ((tc # rest) ! i))) j"
  proof (intro allI impI)
    fix i assume "i < length (tc # rest)"
    then show "\<exists>t r dumped j. by_name (tc_name ((tc # rest) ! i)) = Some t
                 \<and> invoke t (tc_args ((tc # rest) ! i)) = Inr r \<and> js r = Inr dumped
                 \<and> tc_id ((tc # rest) ! i) = Some j
                 \<and> (?m # new) ! i = ToolMessage (PStr dumped) (Some (tc_name ((tc # rest) ! i))) j"
      using t r dumped j each by (cases i) auto
  qed
  ultimately show ?case by blast
qed

lemma tool_loop_errors:
  "snd (tool_loop js by_name tcs outputs invoked) = Inl e \<Longrightarrow>
     (\<exists>k. e = KeyError k) \<or> (\<exists>f. e = External f)"
  by (induction tcs arbitrary: outputs invoked)
     (auto simp: ToolMessage_init_def split: option.splits sum.splits)

text \<open>
  When the loop returns, it has appended exactly one tool message per tool call, in the
  order of the calls, each with the name and the id of its call.
\<close>

lemma tool_loop_returns:
  assumes "tool_loop js by_name tcs outputs invoked = (invoked', Inr outs)"
  shows "\<exists>new. outs = outputs @ new \<and> length new = length tcs
           \<and> (\<forall>i < length tcs. \<exists>dumped j. tc_id (tcs ! i) = Some j
                 \<and> new ! i = ToolMessage (PStr dumped) (Some (tc_name (tcs ! i))) j)"
  using assms
proof (induction tcs arbitrary: outputs invoked)
  case Nil
  then show ?case by simp
next
  case (Cons tc rest)
  from Cons.prems obtain t r dumped j where
    j: "tc_id tc = Some j"
    and run: "tool_loop js by_name rest
                (outputs @ [ToolMessage (PStr dumped) (Some (tc_name tc)) j])
                (invoked @ [(tc_name tc, tc_args tc)]) = (invoked', Inr outs)"
    by (auto simp: ToolMessage_init_def split: option.splits sum.splits)
  let ?m = "ToolMessage (PStr dumped) (Some (tc_name tc)) j"
  from Cons.IH [OF run] obtain new where
    outs: "outs = (outputs @ [?m]) @ new" and len: "length new = length rest"
    and each: "\<forall>i < length rest. \<exists>dumped j. tc_id (rest ! i) = Some j
                 \<and> new ! i = ToolMessage (PStr dumped) (Some (tc_name (rest ! i))) j"
    by blast
  have "\<forall>i < length (tc # rest). \<exists>dumped j. tc_id ((tc # rest) ! i) = Some j
          \<and> (?m # new) ! i = ToolMessage (PStr dumped) (Some (tc_name ((tc # rest) ! i))) j"
  proof (intro allI impI)
    fix i assume "i < length (tc # rest)"
    then show "\<exists>dumped j. tc_id ((tc # rest) ! i) = Some j
          \<and> (?m # new) ! i = ToolMessage (PStr dumped) (Some (tc_name ((tc # rest) ! i))) j"
      using j each by (cases i) auto
  qed
  moreover have "outs = outputs @ (?m # new)" using outs by simp
  moreover have "length (?m # new) = length (tc # rest)" using len by simp
  ultimately show ?case by blast
qed

lemma py_last_errors:
  "py_last v = Inl e \<Longrightarrow> (\<exists>k. e = KeyError k) \<or> (\<exists>k. e = TypeError k) \<or> (\<exists>k. e = IndexError k)"
  by (cases v) (auto split: if_splits)

text \<open>
  C2, as stated, promises the list of tool messages for every input whose tool calls
  name registered tools. The node catches nothing: a registered tool whose invocation
  fails, a result that \<^verbatim>\<open>json.dumps\<close> cannot serialise and a tool call whose id is \<open>None\<close>
  each end the call with the library's failure instead.
\<close>

theorem BasicToolNode_call_failing_tool:
  "tools_by_name (BasicToolNode_init [\<lparr>tool_name = ''search'', invoke = (\<lambda>a. Inl ''timeout'')\<rparr>])
      ''search'' \<noteq> None
   \<and> BasicToolNode_call (\<lambda>r. Inr ''null'')
      (BasicToolNode_init [\<lparr>tool_name = ''search'', invoke = (\<lambda>a. Inl ''timeout'')\<rparr>])
      [(''messages'', PList [PMessage (AIMessage (PStr '''')
          [ToolCall ''search'' (PDict []) (Some ''c1'')])])]
     = ([(''search'', PDict [])], Inl (External ''timeout''))
   \<and> BasicToolNode_call (\<lambda>r. Inl ''TypeError: Object of type bytes is not JSON serializable'')
      (BasicToolNode_init [\<lparr>tool_name = ''search'', invoke = (\<lambda>a. Inr (PBytes ''x''))\<rparr>])
      [(''messages'', PList [PMessage (AIMessage (PStr '''')
          [ToolCall ''search'' (PDict []) (Some ''c1'')])])]
     = ([(''search'', PDict [])],
        Inl (External ''TypeError: Object of type bytes is not JSON serializable''))
   \<and> BasicToolNode_call (\<lambda>r. Inr ''[]'')
      (BasicToolNode_init [\<lparr>tool_name = ''search'', invoke = (\<lambda>a. Inr (PList []))\<rparr>])
      [(''messages'', PList [PMessage (AIMessage (PStr '''')
          [ToolCall ''search'' (PDict []) None])])]
     = ([(''search'', PDict [])], Inl (External ''ValidationError: tool_call_id''))"
  by (simp add: BasicToolNode_call_def BasicToolNode_init_def dict_get_def ToolMessage_init_def)

text \<open>
  C2 (amended). For every input whose last message carries a list of tool calls, each
  with a string id and naming a registered tool whose invocation on the call's
  arguments returns a result that \<^verbatim>\<open>json.dumps\<close> serialises, \<open>BasicToolNode.__call__\<close>
  returns the dictionary \<open>{"messages": outputs}\<close> in which \<open>outputs\<close> has exactly one
  \<open>ToolMessage\<close> per tool call, in the order of the calls: the i-th one has the name and
  the id of the i-th call, and its content is \<^verbatim>\<open>json.dumps\<close> of the result of invoking the
  registered tool on the call's arguments.
\<close>

theorem BasicToolNode_call_messages:
  assumes "map_of inputs ''messages'' = Some (PList items)" and "items \<noteq> []"
    and "last items = PMessage m" and "tool_calls m = Some tcs"
    and "\<forall>tc \<in> set tcs. \<exists>t r dumped j. tools_by_name self (tc_name tc) = Some t
            \<and> invoke t (tc_args tc) = Inr r \<and> js r = Inr dumped \<and> tc_id tc = Some j"
  shows "\<exists>outputs.
           snd (BasicToolNode_call js self inputs) = Inr \<lparr>messages = Some outputs, others = []\<rparr>
         \<and> length outputs = length tcs
         \<and> (\<forall>i < length tcs. \<exists>t r dumped j. tools_by_name self (tc_name (tcs ! i)) = Some t
               \<and> invoke t (tc_args (tcs ! i)) = Inr r \<and> js r = Inr dumped
               \<and> tc_id (tcs ! i) = Some j
               \<and> outputs ! i = ToolMessage (PStr dumped) (Some (tc_name (tcs ! i))) j)"
proof -
  from tool_loop_all_return [OF assms(5), of "[]" "[]"]
  obtain new where
    run: "tool_loop js (tools_by_name self) tcs [] [] =
            (map (\<lambda>tc. (tc_name tc, tc_args tc)) tcs, Inr new)"
    and len: "length new = length tcs"
    and each: "\<forall>i < length tcs. \<exists>t r dumped j. tools_by_name self (tc_name (tcs ! i)) = Some t
                 \<and> invoke t (tc_args (tcs ! i)) = Inr r \<and> js r = Inr dumped
                 \<and> tc_id (tcs ! i) = Some j
                 \<and> new ! i = ToolMessage (PStr dumped) (Some (tc_name (tcs ! i))) j"
    by auto
  have "snd (BasicToolNode_call js self inputs) = Inr \<lparr>messages = Some new, others = []\<rparr>"
    using assms(1-4) run by (simp add: BasicToolNode_call_def dict_get_def)
  with len each show ?thesis by blast
qed

theorem BasicToolNode_call_messages_witness:
  "\<exists>outputs.
     snd (BasicToolNode_call (\<lambda>r. Inr ''[]'')
       (BasicToolNode_init [\<lparr>tool_name = ''search'', invoke = (\<lambda>a. Inr (PList []))\<rparr>])
       [(''messages'', PList [PMessage (HumanMessage (PStr ''hi'')),
          PMessage (AIMessage (PStr '''')
            [ToolCall ''search'' (PDict [(''query'', PStr ''x'')]) (Some ''c1''),
             ToolCall ''search'' (PDict [(''query'', PStr ''y'')]) (Some ''c2'')])])])
       = Inr \<lparr>messages = Some outputs, others = []\<rparr>
   \<and> length outputs = 2
   \<and> outputs ! 0 = ToolMessage (PStr ''[]'') (Some ''search'') ''c1''
   \<and> outputs ! 1 = ToolMessage (PStr ''[]'') (Some ''search'') ''c2''"
proof -
  let ?t = "\<lparr>tool_name = ''search'', invoke = (\<lambda>a. Inr (PList []))\<rparr>"
  let ?js = "\<lambda>r::pyval. Inr ''[]'' :: string + string"
  let ?tcs = "[ToolCall ''search'' (PDict [(''query'', PStr ''x'')]) (Some ''c1''),
               ToolCall ''search'' (PDict [(''query'', PStr ''y'')]) (Some ''c2'')]"
  let ?items = "[PMessage (HumanMessage (PStr ''hi'')), PMessage (AIMessage (PStr '''') ?tcs)]"
  have h1: "map_of [(''messages'', PList ?items)] ''messages'' = Some (PList ?items)" by simp
  have h2: "?items \<noteq> []" by simp
  have h3: "last ?items = PMessage (AIMessage (PStr '''') ?tcs)" by simp
  have h4: "tool_calls (AIMessage (PStr '''') ?tcs) = Some ?tcs" by simp
  have h5: "\<forall>tc \<in> set ?tcs. \<exists>t r dumped j. tools_by_name (BasicToolNode_init [?t]) (tc_name tc) = Some t
              \<and> invoke t (tc_args tc) = Inr r \<and> ?js r = Inr dumped \<and> tc_id tc = Some j"
    by (simp add: BasicToolNode_init_def)
  from BasicToolNode_call_messages [OF h1 h2 h3 h4 h5]
  obtain outputs where
    ret: "snd (BasicToolNode_call ?js (BasicToolNode_init [?t]) [(''messages'', PList ?items)])
            = Inr \<lparr>messages = Some outputs, others = []\<rparr>"
    and len: "length outputs = length ?tcs"
    and each: "\<forall>i < length ?tcs. \<exists>t r dumped j.
                 tools_by_name (BasicToolNode_init [?t]) (tc_name (?tcs ! i)) = Some t
               \<and> invoke t (tc_args (?tcs ! i)) = Inr r \<and> ?js r = Inr dumped
               \<and> tc_id (?tcs ! i) = Some j
               \<and> outputs ! i = ToolMessage (PStr dumped) (Some (tc_name (?tcs ! i))) j"
    by blast
  from each have "outputs ! 0 = ToolMessage (PStr ''[]'') (Some ''search'') ''c1''"
    by (auto simp: BasicToolNode_init_def dest: spec [of _ 0])
  moreover from each have "outputs ! 1 = ToolMessage (PStr ''[]'') (Some ''search'') ''c2''"
    by (auto simp: BasicToolNode_init_def dest: spec [of _ 1])
  ultimately show ?thesis using ret len by auto
qed

text \<open>
  C4, as stated, has the guard raise only when the \<open>messages\<close> entry is missing or the
  empty list. The guard tests the truth value of the entry: an entry that is \<open>None\<close> is
  present, is not the empty list, and raises the same error.
\<close>

theorem BasicToolNode_call_guard_on_None:
  "map_of [(''messages'', PNone)] ''messages'' = Some PNone
   \<and> PNone \<noteq> PList []
   \<and> BasicToolNode_call (\<lambda>r. Inr ''null'')
       (BasicToolNode_init [\<lparr>tool_name = ''search'', invoke = (\<lambda>a. Inr (PList []))\<rparr>])
       [(''messages'', PNone)]
     = ([], Inl (ValueError ''No message found in input''))"
  by (simp add: BasicToolNode_call_def dict_get_def)

text \<open>
  C4 (amended). \<open>BasicToolNode.__call__\<close> raises \<open>ValueError("No message found in input")\<close>
  exactly when \<^verbatim>\<open>inputs.get("messages", [])\<close> is false in a condition, as it is when the
  input dictionary has no \<open>messages\<close> entry and when the entry is the empty list or
  another value Python counts as false (\<open>None\<close>, \<open>False\<close>, zero, an empty string, tuple
  or dictionary), and as it is not when the entry is a non-empty list. When it raises,
  no tool has been invoked and no output dictionary is produced.
\<close>

theorem BasicToolNode_call_guard:
  "(snd (BasicToolNode_call js self inputs) = Inl (ValueError ''No message found in input'')
      \<longleftrightarrow> \<not> truthy (dict_get inputs ''messages'' (PList [])))
   \<and> (\<not> truthy (dict_get inputs ''messages'' (PList [])) \<longrightarrow>
        BasicToolNode_call js self inputs = ([], Inl (ValueError ''No message found in input'')))
   \<and> (map_of inputs ''messages'' = None
        \<or> map_of inputs ''messages'' \<in> Some ` {PList [], PNone, PBool False, PInt 0, PStr [],
              PBytes [], PTuple [], PDict []} \<longrightarrow>
        \<not> truthy (dict_get inputs ''messages'' (PList [])))
   \<and> (\<forall>items. map_of inputs ''messages'' = Some (PList items) \<and> items \<noteq> [] \<longrightarrow>
        truthy (dict_get inputs ''messages'' (PList [])))"
proof -
  let ?v = "dict_get inputs ''messages'' (PList [])"
  have truthy_case: "snd (BasicToolNode_call js self inputs) \<noteq> Inl (ValueError ''No message found in input'')"
    if t: "truthy ?v"
  proof (cases "py_last ?v")
    case (Inl e)
    from py_last_errors [OF this] have "e \<noteq> ValueError ''No message found in input''" by auto
    with t Inl show ?thesis by (simp add: BasicToolNode_call_def)
  next
    case (Inr message)
    show ?thesis
    proof (cases "attr_tool_calls message")
      case None
      with t Inr show ?thesis by (simp add: BasicToolNode_call_def)
    next
      case (Some tcs)
      obtain invoked res where run: "tool_loop js (tools_by_name self) tcs [] [] = (invoked, res)"
        by (cases "tool_loop js (tools_by_name self) tcs [] []") auto
      show ?thesis
      proof (cases res)
        case (Inl e)
        with run have "snd (tool_loop js (tools_by_name self) tcs [] []) = Inl e" by simp
        from tool_loop_errors [OF this] have "e \<noteq> ValueError ''No message found in input''" by auto
        with t Inr Some run Inl show ?thesis by (simp add: BasicToolNode_call_def)
      next
        case (Inr outputs)
        with t \<open>py_last ?v = Inr message\<close> Some run show ?thesis
          by (simp add: BasicToolNode_call_def)
      qed
    qed
  qed
  have falsy_case: "BasicToolNode_call js self inputs = ([], Inl (ValueError ''No message found in input''))"
    if "\<not> truthy ?v"
    using that by (simp add: BasicToolNode_call_def)
  have falsy_values: "\<not> truthy ?v"
    if "map_of inputs ''messages'' = None
        \<or> map_of inputs ''messages'' \<in> Some ` {PList [], PNone, PBool False, PInt 0, PStr [],
              PBytes [], PTuple [], PDict []}"
    using that by (auto simp: dict_get_def)
  have truthy_list: "truthy ?v"
    if "map_of inputs ''messages'' = Some (PList items) \<and> items \<noteq> []" for items
    using that by (simp add: dict_get_def)
  have guard: "snd (BasicToolNode_call js self inputs) = Inl (ValueError ''No message found in input'')
      \<longleftrightarrow> \<not> truthy ?v"
  proof (cases "truthy ?v")
    case True
    with truthy_case show ?thesis by simp
  next
    case False
    with falsy_case show ?thesis by simp
  qed
  from guard falsy_case falsy_values truthy_list show ?thesis by blast
qed

theorem BasicToolNode_call_guard_witness:
  "BasicToolNode_call (\<lambda>r. Inr ''null'')
      (BasicToolNode_init [\<lparr>tool_name = ''search'', invoke = (\<lambda>a. Inr (PList []))\<rparr>])
      [(''messages'', PList [])]
     = ([], Inl (ValueError ''No message found in input''))
   \<and> snd (BasicToolNode_call (\<lambda>r. Inr ''null'')
      (BasicToolNode_init [\<lparr>tool_name = ''search'', invoke = (\<lambda>a. Inr (PList []))\<rparr>])
      [(''messages'', PList [PMessage (HumanMessage (PStr ''hi''))])])
     \<noteq> Inl (ValueError ''No message found in input'')"
  using BasicToolNode_call_guard [of "\<lambda>r. Inr ''null''"
      "BasicToolNode_init [\<lparr>tool_name = ''search'', invoke = (\<lambda>a. Inr (PList []))\<rparr>]"
      "[(''messages'', PList [])]"]
    BasicToolNode_call_guard [of "\<lambda>r. Inr ''null''"
      "BasicToolNode_init [\<lparr>tool_name = ''search'', invoke = (\<lambda>a. Inr (PList []))\<rparr>]"
      "[(''messages'', PList [PMessage (HumanMessage (PStr ''hi''))])]"]
  by (simp add: dict_get_def)

subsection \<open>The human review tool\<close>

text \<open>A string's lowercasing starts with y exactly when the string starts with y or Y.\<close>

lemma startswith_lower_y:
  "startswith (lower s) ''y'' \<longleftrightarrow> (\<exists>rest. s = CHR ''y'' # rest \<or> s = CHR ''Y'' # rest)"
proof (cases s)
  case Nil
  then show ?thesis by (simp add: startswith_def lower_def)
next
  case (Cons c rest)
  have "lower_char c = CHR ''y'' \<longleftrightarrow> c = CHR ''y'' \<or> c = CHR ''Y''"
    by (simp add: lower_char_def)
  with Cons show ?thesis by (auto simp: startswith_def lower_def)
qed

text \<open>
  C5, as stated, has the tool take the correction branch in every case other than a
  \<open>correct\<close> entry that is a string starting with y. A \<open>correct\<close> entry that is not a
  string has no \<open>lower\<close> method, and the tool returns no \<open>Command\<close>.
\<close>

theorem human_assistance_correct_not_a_string:
  "human_assistance (\<lambda>d. ''{}'') ''LangGraph'' ''January 17, 2024'' ''toolu_01''
     (Some (PDict [(''correct'', PBool True)])) = Inl (AttributeError ''lower'')"
  by (simp add: human_assistance_def dict_get_def)

text \<open>
  C5 (amended). For every proposed name and birthday and every resume payload that is a
  dictionary whose \<open>correct\<close> entry is absent or a string: when the entry is a string
  whose lowercasing starts with y, the returned \<open>Command\<close> sets \<open>name\<close> and \<open>birthday\<close> to
  the proposed values and its message content is \<open>Correct\<close>; otherwise it sets them to
  the payload's \<open>name\<close> and \<open>birthday\<close> entries, each defaulting to the proposed value,
  and the message content is \<open>Made a correction:\<close> followed by the payload. In both
  cases the one appended \<open>ToolMessage\<close> carries the injected \<open>tool_call_id\<close>.
\<close>

theorem human_assistance_command:
  "(\<forall>correct. map_of payload ''correct'' = Some (PStr correct)
        \<and> startswith (lower correct) ''y'' \<longrightarrow>
      human_assistance py_str name birthday tool_call_id (Some (PDict payload)) =
        Inr (Command \<lparr>messages = Some [ToolMessage (PStr ''Correct'') None tool_call_id],
                      others = [(''name'', PStr name), (''birthday'', PStr birthday)]\<rparr>))
   \<and> (map_of payload ''correct'' = None
        \<or> (\<exists>correct. map_of payload ''correct'' = Some (PStr correct)
              \<and> \<not> startswith (lower correct) ''y'') \<longrightarrow>
      human_assistance py_str name birthday tool_call_id (Some (PDict payload)) =
        Inr (Command
          \<lparr>messages = Some [ToolMessage (PStr (''Made a correction: '' @ py_str payload)) None
                              tool_call_id],
           others = [(''name'', dict_get payload ''name'' (PStr name)),
                     (''birthday'', dict_get payload ''birthday'' (PStr birthday))]\<rparr>))"
proof (intro conjI allI impI)
  fix correct
  assume "map_of payload ''correct'' = Some (PStr correct) \<and> startswith (lower correct) ''y''"
  then show "human_assistance py_str name birthday tool_call_id (Some (PDict payload)) =
        Inr (Command \<lparr>messages = Some [ToolMessage (PStr ''Correct'') None tool_call_id],
                      others = [(''name'', PStr name), (''birthday'', PStr birthday)]\<rparr>)"
    by (simp add: human_assistance_def dict_get_def)
next
  assume "map_of payload ''correct'' = None
        \<or> (\<exists>correct. map_of payload ''correct'' = Some (PStr correct)
              \<and> \<not> startswith (lower correct) ''y'')"
  then obtain correct where "dict_get payload ''correct'' (PStr []) = PStr correct"
    and "\<not> startswith (lower correct) ''y''"
    by (auto simp: dict_get_def startswith_def lower_def)
  then show "human_assistance py_str name birthday tool_call_id (Some (PDict payload)) =
        Inr (Command
          \<lparr>messages = Some [ToolMessage (PStr (''Made a correction: '' @ py_str payload)) None
                              tool_call_id],
           others = [(''name'', dict_get payload ''name'' (PStr name)),
                     (''birthday'', dict_get payload ''birthday'' (PStr birthday))]\<rparr>)"
    by (simp add: human_assistance_def)
qed

theorem human_assistance_command_witness:
  "human_assistance (\<lambda>d. ''{...}'') ''LangGraph'' ''January 17, 2024'' ''toolu_01''
     (Some (PDict [(''correct'', PStr ''Yes'')])) =
     Inr (Command \<lparr>messages = Some [ToolMessage (PStr ''Correct'') None ''toolu_01''],
            others = [(''name'', PStr ''LangGraph''), (''birthday'', PStr ''January 17, 2024'')]\<rparr>)
   \<and> human_assistance (\<lambda>d. ''{...}'') ''LangGraph'' ''January 17, 2024'' ''toolu_01''
     (Some (PDict [(''name'', PStr ''LangGraph''), (''birthday'', PStr ''Jan 17, 2024'')])) =
     Inr (Command \<lparr>messages = Some [ToolMessage (PStr ''Made a correction: {...}'') None ''toolu_01''],
            others = [(''name'', PStr ''LangGraph''), (''birthday'', PStr ''Jan 17, 2024'')]\<rparr>)"
  using human_assistance_command [of "[(''correct'', PStr ''Yes'')]" "\<lambda>d. ''{...}''"
          "''LangGraph''" "''January 17, 2024''" "''toolu_01''"]
        human_assistance_command [of "[(''name'', PStr ''LangGraph''), (''birthday'', PStr ''Jan 17, 2024'')]"
          "\<lambda>d. ''{...}''" "''LangGraph''" "''January 17, 2024''" "''toolu_01''"]
  by (simp add: dict_get_def startswith_def lower_def lower_char_def)

subsection \<open>The shared state\<close>

lemma history_apply_update:
  "history (apply_update state upd) = add_messages (history state) (history upd)"
  by (simp add: history_def apply_update_def add_messages_def split: option.splits)

lemma State_as_dict_messages:
  "dict_get (State_as_dict state) ''messages'' (PList []) = PList (map PMessage (history state))"
  by (simp add: State_as_dict_def dict_get_def history_def delete_conv' split: option.splits)

lemma chatbot_step:
  assumes "run_node llm js tool_node py_str Chatbot state = Inr state'"
  shows "history state' = history state @ [llm (history state)]"
proof -
  from assms obtain hist where hist: "messages state = Some hist"
    and s': "state' = apply_update state \<lparr>messages = Some [llm hist], others = []\<rparr>"
    by (auto simp: chatbot_def split: option.splits)
  have "history state = hist" using hist by (simp add: history_def)
  moreover have "history \<lparr>messages = Some [llm hist], others = []\<rparr> = [llm hist]"
    by (simp add: history_def)
  ultimately show ?thesis
    unfolding s' history_apply_update by (simp add: add_messages_def)
qed

lemma chatbot_part_5_step:
  assumes "run_node llm js tool_node py_str ChatbotPart5 state = Inr state'"
  shows "history state' = history state @ [llm (history state)]"
proof -
  from assms obtain hist where hist: "messages state = Some hist"
    and s': "state' = apply_update state \<lparr>messages = Some [llm hist], others = []\<rparr>"
    by (auto simp: chatbot_part_5_def Let_def split: option.splits if_splits)
  have "history state = hist" using hist by (simp add: history_def)
  moreover have "history \<lparr>messages = Some [llm hist], others = []\<rparr> = [llm hist]"
    by (simp add: history_def)
  ultimately show ?thesis
    unfolding s' history_apply_update by (simp add: add_messages_def)
qed

lemma tools_step:
  assumes "run_node llm js tool_node py_str Tools state = Inr state'"
  shows "\<exists>tcs new. history state \<noteq> [] \<and> tool_calls (last (history state)) = Some tcs
           \<and> length new = length tcs
           \<and> (\<forall>i < length tcs. \<exists>dumped j. tc_id (tcs ! i) = Some j
                 \<and> new ! i = ToolMessage (PStr dumped) (Some (tc_name (tcs ! i))) j)
           \<and> history state' = history state @ new"
proof -
  let ?call = "BasicToolNode_call js tool_node (State_as_dict state)"
  from assms obtain upd where upd: "snd ?call = Inr upd" and s': "state' = apply_update state upd"
    by (auto split: sum.splits)
  have nonempty: "history state \<noteq> []"
  proof
    assume "history state = []"
    then have "snd ?call = Inl (ValueError ''No message found in input'')"
      by (simp add: BasicToolNode_call_def State_as_dict_messages)
    with upd show False by simp
  qed
  then have last: "py_last (PList (map PMessage (history state))) = Inr (PMessage (last (history state)))"
    by (simp add: last_map)
  obtain tcs where tcs: "tool_calls (last (history state)) = Some tcs"
  proof (cases "tool_calls (last (history state))")
    case None
    with nonempty last have "snd ?call = Inl (AttributeError ''tool_calls'')"
      by (simp add: BasicToolNode_call_def State_as_dict_messages)
    with upd show ?thesis by simp
  next
    case (Some tcs)
    then show ?thesis by (rule that)
  qed
  obtain invoked res where run: "tool_loop js (tools_by_name tool_node) tcs [] [] = (invoked, res)"
    by (cases "tool_loop js (tools_by_name tool_node) tcs [] []") auto
  from nonempty last tcs run upd obtain outs where res: "res = Inr outs"
    and u: "upd = \<lparr>messages = Some outs, others = []\<rparr>"
    by (cases res) (auto simp: BasicToolNode_call_def State_as_dict_messages)
  from tool_loop_returns [of js "tools_by_name tool_node" tcs "[]" "[]" invoked outs] run res
  obtain new where "outs = new" and len: "length new = length tcs"
    and each: "\<forall>i < length tcs. \<exists>dumped j. tc_id (tcs ! i) = Some j
                 \<and> new ! i = ToolMessage (PStr dumped) (Some (tc_name (tcs ! i))) j"
    by auto
  have "history \<lparr>messages = Some new, others = []\<rparr> = new"
    by (simp add: history_def)
  with s' u \<open>outs = new\<close> have "history state' = history state @ new"
    unfolding s' history_apply_update by (simp add: add_messages_def)
  with nonempty tcs len each show ?thesis by blast
qed

lemma human_assistance_step:
  assumes "run_node llm js tool_node py_str (HumanAssistance name birthday tool_call_id payload) state
             = Inr state'"
  shows "\<exists>c. history state' = history state @ [ToolMessage (PStr c) None tool_call_id]"
proof -
  from assms obtain cmd where
    cmd: "human_assistance py_str name birthday tool_call_id (Some payload) = Inr cmd"
    and s': "state' = apply_update state (update cmd)"
    by (auto split: sum.splits)
  from cmd obtain c where "messages (update cmd) = Some [ToolMessage (PStr c) None tool_call_id]"
    by (auto simp: human_assistance_def Let_def split: pyval.splits if_splits)
  then have "history (update cmd) = [ToolMessage (PStr c) None tool_call_id]"
    by (simp add: history_def)
  then have "history state' = history state @ [ToolMessage (PStr c) None tool_call_id]"
    unfolding s' history_apply_update by (simp add: add_messages_def)
  then show ?thesis by blast
qed

lemma run_node_history:
  assumes "run_node llm js tool_node py_str n state = Inr state'"
  shows "prefix (history state) (history state')"
proof (cases n)
  case Chatbot
  with assms chatbot_step show ?thesis by fastforce
next
  case ChatbotPart5
  with assms chatbot_part_5_step show ?thesis by fastforce
next
  case Tools
  with assms tools_step [of llm js tool_node py_str state state'] show ?thesis by auto
next
  case (HumanAssistance name birthday tool_call_id payload)
  with assms human_assistance_step [of llm js tool_node py_str name birthday tool_call_id payload
      state state'] show ?thesis by auto
qed

lemma others_apply_update:
  "map_of (others (apply_update state upd)) key =
     (case map_of (rev (others upd)) key of None \<Rightarrow> map_of (others state) key | Some v \<Rightarrow> Some v)"
proof -
  have "map_of (fold (\<lambda>(k, v). AList.update k v) us al) key =
          (case map_of (rev us) key of None \<Rightarrow> map_of al key | Some v \<Rightarrow> Some v)" for us al
  proof (induction us arbitrary: al)
    case Nil
    then show ?case by simp
  next
    case (Cons u us)
    obtain k v where u: "u = (k, v)" by (cases u)
    show ?case
      by (simp add: u Cons.IH update_conv' map_add_def split: option.splits)
  qed
  then show ?thesis by (simp add: apply_update_def)
qed

text \<open>
  C7. The message history is append-only and order-preserving. Every node of the
  notebooks returns only new messages, which the reducer puts after the history: a
  step of either model node adds exactly the model's reply, a step of the tool node
  adds exactly one new tool message per tool call of the last message, in the order of
  the calls, and a step of the human review tool adds exactly its one tool message.
  So after every step, and after any sequence of steps, the history before is a prefix
  of the history after; no message is removed or reordered.
\<close>

theorem history_append_only:
  "(\<forall>state'. run_node llm js tool_node py_str Chatbot state = Inr state' \<longrightarrow>
       history state' = history state @ [llm (history state)])
   \<and> (\<forall>state'. run_node llm js tool_node py_str ChatbotPart5 state = Inr state' \<longrightarrow>
       history state' = history state @ [llm (history state)])
   \<and> (\<forall>state'. run_node llm js tool_node py_str Tools state = Inr state' \<longrightarrow>
       (\<exists>tcs new. history state \<noteq> [] \<and> tool_calls (last (history state)) = Some tcs
           \<and> length new = length tcs
           \<and> (\<forall>i < length tcs. \<exists>dumped j. tc_id (tcs ! i) = Some j
                 \<and> new ! i = ToolMessage (PStr dumped) (Some (tc_name (tcs ! i))) j)
           \<and> history state' = history state @ new))
   \<and> (\<forall>state' name birthday tool_call_id payload.
         run_node llm js tool_node py_str (HumanAssistance name birthday tool_call_id payload) state
           = Inr state' \<longrightarrow>
       (\<exists>c. history state' = history state @ [ToolMessage (PStr c) None tool_call_id]))
   \<and> prefix (history state) (history (fst (run_nodes llm js tool_node py_str nodes state)))"
proof -
  have "prefix (history state) (history (fst (run_nodes llm js tool_node py_str nodes state)))"
  proof (induction nodes arbitrary: state)
    case Nil
    show ?case by simp
  next
    case (Cons n ns)
    show ?case
    proof (cases "run_node llm js tool_node py_str n state")
      case (Inl e)
      then show ?thesis by simp
    next
      case (Inr state')
      from run_node_history [OF Inr] have "prefix (history state) (history state')" .
      also have "prefix (history state')
          (history (fst (run_nodes llm js tool_node py_str ns state')))"
        by (rule Cons.IH)
      finally show ?thesis using Inr by simp
    qed
  qed
  with chatbot_step [of llm js tool_node py_str state]
    chatbot_part_5_step [of llm js tool_node py_str state]
    tools_step [of llm js tool_node py_str state]
    human_assistance_step [of llm js tool_node py_str _ _ _ _ state]
  show ?thesis by blast
qed

theorem history_append_only_witness:
  "history (fst (run_nodes
        (\<lambda>h. AIMessage (PStr '''') [ToolCall ''search'' (PDict []) (Some ''c1'')])
        (\<lambda>r. Inr ''[]'')
        (BasicToolNode_init [\<lparr>tool_name = ''search'', invoke = (\<lambda>a. Inr (PList []))\<rparr>])
        (\<lambda>d. ''{}'')
        [Chatbot]
        \<lparr>messages = Some [HumanMessage (PStr ''hi'')], others = []\<rparr>))
     = [HumanMessage (PStr ''hi''),
        AIMessage (PStr '''') [ToolCall ''search'' (PDict []) (Some ''c1'')]]
   \<and> prefix [HumanMessage (PStr ''hi'')]
     (history (fst (run_nodes
        (\<lambda>h. AIMessage (PStr '''') [ToolCall ''search'' (PDict []) (Some ''c1'')])
        (\<lambda>r. Inr ''[]'')
        (BasicToolNode_init [\<lparr>tool_name = ''search'', invoke = (\<lambda>a. Inr (PList []))\<rparr>])
        (\<lambda>d. ''{}'')
        [Chatbot, Tools]
        \<lparr>messages = Some [HumanMessage (PStr ''hi'')], others = []\<rparr>)))"
proof -
  let ?llm = "\<lambda>h::message list. AIMessage (PStr '''') [ToolCall ''search'' (PDict []) (Some ''c1'')]"
  let ?js = "\<lambda>r::pyval. Inr ''[]'' :: string + string"
  let ?node = "BasicToolNode_init [\<lparr>tool_name = ''search'', invoke = (\<lambda>a. Inr (PList []))\<rparr>]"
  let ?ps = "\<lambda>d::dict. ''{}''"
  let ?s = "\<lparr>messages = Some [HumanMessage (PStr ''hi'')], others = []\<rparr>"
  let ?s1 = "apply_update ?s \<lparr>messages = Some [?llm [HumanMessage (PStr ''hi'')]], others = []\<rparr>"
  have step: "run_node ?llm ?js ?node ?ps Chatbot ?s = Inr ?s1"
    by (simp add: chatbot_def)
  note inst = history_append_only [of ?llm ?js ?node ?ps ?s "[Chatbot, Tools]"]
  from inst step have "history ?s1 = history ?s @ [?llm (history ?s)]"
    by blast
  moreover from step have "fst (run_nodes ?llm ?js ?node ?ps [Chatbot] ?s) = ?s1"
    by simp
  moreover from inst have "prefix (history ?s)
      (history (fst (run_nodes ?llm ?js ?node ?ps [Chatbot, Tools] ?s)))"
    by blast
  ultimately show ?thesis by (simp add: history_def)
qed

text \<open>
  C10. The \<open>Command\<close> that \<open>human_assistance\<close> returns has exactly the keys \<open>name\<close>,
  \<open>birthday\<close> and \<open>messages\<close>; on every resume payload, the human review step leaves
  every other key of the shared state as it was.
\<close>

theorem human_assistance_frame:
  "(\<forall>cmd. human_assistance py_str name birthday tool_call_id (Some payload) = Inr cmd \<longrightarrow>
       map fst (others (update cmd)) = [''name'', ''birthday'']
     \<and> (\<exists>m. messages (update cmd) = Some [m]))
   \<and> (\<forall>key. key \<noteq> ''name'' \<and> key \<noteq> ''birthday'' \<longrightarrow>
        map_of (others (fst (run_nodes llm js tool_node py_str
                  [HumanAssistance name birthday tool_call_id payload] state))) key
        = map_of (others state) key)"
proof -
  have keys: "map fst (others (update cmd)) = [''name'', ''birthday'']
       \<and> (\<exists>m. messages (update cmd) = Some [m])"
    if "human_assistance py_str name birthday tool_call_id (Some payload) = Inr cmd" for cmd
    using that by (auto simp: human_assistance_def Let_def split: pyval.splits if_splits)
  have frame: "map_of (others (fst (run_nodes llm js tool_node py_str
                  [HumanAssistance name birthday tool_call_id payload] state))) key
        = map_of (others state) key"
    if key: "key \<noteq> ''name'' \<and> key \<noteq> ''birthday''" for key
  proof (cases "human_assistance py_str name birthday tool_call_id (Some payload)")
    case (Inl e)
    then show ?thesis by simp
  next
    case (Inr cmd)
    from keys [OF this] have "map fst (others (update cmd)) = [''name'', ''birthday'']"
      by simp
    then have "fst ` set (rev (others (update cmd))) = {''name'', ''birthday''}"
      by (metis list.set_map set_rev list.simps(15) empty_set insert_commute)
    then have "map_of (rev (others (update cmd))) key = None"
      using key by (simp add: map_of_eq_None_iff)
    with Inr show ?thesis by (simp add: others_apply_update)
  qed
  from keys frame show ?thesis by blast
qed

theorem human_assistance_frame_witness:
  "map_of (others (fst (run_nodes (\<lambda>h. AIMessage (PStr '''') []) (\<lambda>r. Inr ''[]'')
       (BasicToolNode_init []) (\<lambda>d. ''{...}'')
       [HumanAssistance ''LangGraph'' ''January 17, 2024'' ''toolu_01''
          (PDict [(''name'', PStr ''LangGraph''), (''birthday'', PStr ''Jan 17, 2024'')])]
       \<lparr>messages = Some [], others = [(''name'', PStr ''old''), (''thread'', PInt 1)]\<rparr>)))
     ''thread'' = Some (PInt 1)"
  using human_assistance_frame [of "\<lambda>d. ''{...}''" "''LangGraph''" "''January 17, 2024''"
      "''toolu_01''" "PDict [(''name'', PStr ''LangGraph''), (''birthday'', PStr ''Jan 17, 2024'')]"
      "\<lambda>h. AIMessage (PStr '''') []" "\<lambda>r. Inr ''[]''" "BasicToolNode_init []"
      "\<lparr>messages = Some [], others = [(''name'', PStr ''old''), (''thread'', PInt 1)]\<rparr>"]
  by simp

subsection \<open>The console loop\<close>

lemma print_values_lines:
  "x \<in> set (fst (print_values py_str vs)) \<Longrightarrow> \<exists>t. x = ''Assistant: '' @ t"
  by (induction vs arbitrary: x) (auto split: option.splits if_splits prod.splits)

lemma print_events_lines:
  "x \<in> set (fst (print_events py_str events)) \<Longrightarrow> \<exists>t. x = ''Assistant: '' @ t"
proof (induction events arbitrary: x)
  case Nil
  then show ?case by simp
next
  case (Cons event events)
  obtain out r where pv: "print_values py_str event = (out, r)"
    by (cases "print_values py_str event") auto
  obtain out' r' where pe: "print_events py_str events = (out', r')"
    by (cases "print_events py_str events") auto
  from Cons.prems pv pe have "x \<in> set out \<or> x \<in> set out'"
    by (cases r) auto
  then show ?case
  proof
    assume "x \<in> set out"
    with pv have "x \<in> set (fst (print_values py_str event))" by simp
    then show ?thesis by (rule print_values_lines)
  next
    assume "x \<in> set out'"
    with pe have "x \<in> set (fst (print_events py_str events))" by simp
    then show ?thesis by (rule Cons.IH)
  qed
qed

lemma stream_graph_updates_lines:
  assumes "x \<in> set (fst (stream_graph_updates py_str graph_stream user_input))"
  shows "\<exists>t. x = ''Assistant: '' @ t"
proof -
  obtain events failure where
    g: "graph_stream \<lparr>messages = Some [HumanMessage (PStr user_input)], others = []\<rparr>
          = (events, failure)"
    by (cases "graph_stream \<lparr>messages = Some [HumanMessage (PStr user_input)], others = []\<rparr>") auto
  obtain out r where pe: "print_events py_str events = (out, r)"
    by (cases "print_events py_str events") auto
  from assms g pe have "x \<in> set (fst (print_events py_str events))"
    by (cases r) (auto simp: stream_graph_updates_def)
  then show ?thesis by (rule print_events_lines)
qed

lemma stream_graph_updates_no_goodbye:
  "''Goodbye!'' \<notin> set (fst (stream_graph_updates py_str graph_stream user_input))"
proof
  assume "''Goodbye!'' \<in> set (fst (stream_graph_updates py_str graph_stream user_input))"
  from stream_graph_updates_lines [OF this] show False by simp
qed

text \<open>
  C8, as stated, has the loop go on to the next iteration after every line that is not a
  sentinel. When streaming the graph's response for the line raises, the bare \<open>except\<close>
  streams the fallback question and leaves the loop.
\<close>

theorem loop_body_stream_raises:
  "lower ''hello'' \<notin> set [''quit'', ''exit'', ''q'']
   \<and> loop_body (\<lambda>v. ''...'')
       (\<lambda>s. if s = \<lparr>messages = Some [HumanMessage (PStr ''hello'')], others = []\<rparr>
             then ([], Some ''connection error'')
             else ([[\<lparr>messages = Some [AIMessage (PStr ''LangGraph is a library'') []],
                      others = []\<rparr>]], None))
       (Line ''hello'')
     = ([''User: '', ''User: What do you know about LangGraph?'', ''Assistant: ...''], Break, None)"
  by (simp add: loop_body_def stream_graph_updates_def lower_def lower_char_def)

text \<open>
  C8 (amended). On every iteration of the console loop that reads a line: the iteration
  ends the loop after printing \<open>Goodbye!\<close> if and only if the line, lowercased, is one of
  \<open>quit\<close>, \<open>exit\<close>, \<open>q\<close>, and then nothing else is read or streamed; for every other line
  it streams the graph's response for that line and, when the streaming returns without
  raising, continues with the next iteration; when the streaming raises, the handler
  prints the fallback question, streams its response and ends the loop without printing
  \<open>Goodbye!\<close>.
\<close>

theorem console_loop_iteration:
  "(fst (snd (loop_body py_str graph_stream (Line line))) = Break
      \<and> ''Goodbye!'' \<in> set (fst (loop_body py_str graph_stream (Line line)))
     \<longleftrightarrow> lower line \<in> set [''quit'', ''exit'', ''q''])
   \<and> (lower line \<in> set [''quit'', ''exit'', ''q''] \<longrightarrow>
        console_loop py_str graph_stream (Line line # rest) = ([''User: '', ''Goodbye!''], None))
   \<and> (lower line \<notin> set [''quit'', ''exit'', ''q''] \<longrightarrow>
        (\<forall>out. stream_graph_updates py_str graph_stream line = (out, None) \<longrightarrow>
           console_loop py_str graph_stream (Line line # rest) =
             (''User: '' # out @ fst (console_loop py_str graph_stream rest),
              snd (console_loop py_str graph_stream rest))))
   \<and> (lower line \<notin> set [''quit'', ''exit'', ''q''] \<longrightarrow>
        (\<forall>out e. stream_graph_updates py_str graph_stream line = (out, Some e) \<longrightarrow>
           console_loop py_str graph_stream (Line line # rest) =
             (''User: '' # out @ ''User: What do you know about LangGraph?''
                # fst (stream_graph_updates py_str graph_stream ''What do you know about LangGraph?''),
              snd (stream_graph_updates py_str graph_stream ''What do you know about LangGraph?''))))"
proof -
  let ?sentinel = "lower line \<in> set [''quit'', ''exit'', ''q'']"
  let ?fallback = "stream_graph_updates py_str graph_stream ''What do you know about LangGraph?''"
  obtain out r where s: "stream_graph_updates py_str graph_stream line = (out, r)"
    by (cases "stream_graph_updates py_str graph_stream line") auto
  obtain out2 r2 where f: "?fallback = (out2, r2)"
    by (cases ?fallback) auto
  have no1: "''Goodbye!'' \<notin> set out"
    using stream_graph_updates_no_goodbye [of py_str graph_stream line] s by simp
  have no2: "''Goodbye!'' \<notin> set out2"
    using stream_graph_updates_no_goodbye [of py_str graph_stream "''What do you know about LangGraph?''"] f
    by simp
  have body_sentinel: "loop_body py_str graph_stream (Line line) = ([''User: '', ''Goodbye!''], Break, None)"
    if ?sentinel
    using that by (simp add: loop_body_def)
  have body_ok: "loop_body py_str graph_stream (Line line) = (''User: '' # out, Continue, None)"
    if "\<not> ?sentinel" and "r = None"
    using that s by (simp add: loop_body_def)
  have body_raises: "loop_body py_str graph_stream (Line line) =
      (''User: '' # out @ ''User: What do you know about LangGraph?'' # out2, Break, r2)"
    if "\<not> ?sentinel" and "r = Some e" for e
    using that s f by (simp add: loop_body_def)
  have iff: "fst (snd (loop_body py_str graph_stream (Line line))) = Break
      \<and> ''Goodbye!'' \<in> set (fst (loop_body py_str graph_stream (Line line))) \<longleftrightarrow> ?sentinel"
  proof (cases ?sentinel)
    case True
    with body_sentinel show ?thesis by simp
  next
    case False
    show ?thesis
    proof (cases r)
      case None
      with False body_ok show ?thesis by simp
    next
      case (Some e)
      with False body_raises [of e] no1 no2 show ?thesis by simp
    qed
  qed
  have c2: "console_loop py_str graph_stream (Line line # rest) = ([''User: '', ''Goodbye!''], None)"
    if ?sentinel
    using body_sentinel [OF that] by simp
  have c3: "console_loop py_str graph_stream (Line line # rest) =
             (''User: '' # out' @ fst (console_loop py_str graph_stream rest),
              snd (console_loop py_str graph_stream rest))"
    if "\<not> ?sentinel" and "stream_graph_updates py_str graph_stream line = (out', None)" for out'
    using that s body_ok by (simp split: prod.splits)
  have c4: "console_loop py_str graph_stream (Line line # rest) =
             (''User: '' # out' @ ''User: What do you know about LangGraph?'' # fst ?fallback,
              snd ?fallback)"
    if "\<not> ?sentinel" and "stream_graph_updates py_str graph_stream line = (out', Some e)" for out' e
    using that s f body_raises [of e] by simp
  from iff c2 c3 c4 show ?thesis by blast
qed

theorem console_loop_iteration_witness:
  "console_loop (\<lambda>v. ''...'')
     (\<lambda>s. ([[\<lparr>messages = Some [AIMessage (PStr ''LangGraph is a library'') []], others = []\<rparr>]], None))
     [Line ''hello'', Line ''Quit'', Line ''more'']
   = ([''User: '', ''Assistant: ...'', ''User: '', ''Goodbye!''], None)"
proof -
  let ?g = "\<lambda>s::State. ([[\<lparr>messages = Some [AIMessage (PStr ''LangGraph is a library'') []],
               others = []\<rparr>]], None :: string option)"
  have a: "lower ''hello'' \<notin> set [''quit'', ''exit'', ''q'']"
    by (simp add: lower_def lower_char_def)
  have b: "lower ''Quit'' \<in> set [''quit'', ''exit'', ''q'']"
    by (simp add: lower_def lower_char_def)
  have s: "stream_graph_updates (\<lambda>v. ''...'') ?g ''hello'' = ([''Assistant: ...''], None)"
    by (simp add: stream_graph_updates_def)
  from console_loop_iteration [of "\<lambda>v. ''...''" ?g "''Quit''" "[Line ''more'']"] b
  have q: "console_loop (\<lambda>v. ''...'') ?g [Line ''Quit'', Line ''more''] = ([''User: '', ''Goodbye!''], None)"
    by blast
  from console_loop_iteration [of "\<lambda>v. ''...''" ?g "''hello''" "[Line ''Quit'', Line ''more'']"] a s
  have "console_loop (\<lambda>v. ''...'') ?g [Line ''hello'', Line ''Quit'', Line ''more''] =
          (''User: '' # [''Assistant: ...'']
             @ fst (console_loop (\<lambda>v. ''...'') ?g [Line ''Quit'', Line ''more'']),
           snd (console_loop (\<lambda>v. ''...'') ?g [Line ''Quit'', Line ''more'']))"
    by blast
  with q show ?thesis by simp
qed

subsection \<open>Errors raised by the notebooks\<close>

lemma print_values_errors:
  "snd (print_values py_str vs) = Some e \<Longrightarrow> \<not> raised_by_notebook e"
  by (induction vs) (auto split: option.splits if_splits prod.splits)

lemma print_events_errors:
  "snd (print_events py_str events) = Some e \<Longrightarrow> \<not> raised_by_notebook e"
proof (induction events)
  case Nil
  then show ?case by simp
next
  case (Cons event events)
  obtain out r where pv: "print_values py_str event = (out, r)"
    by (cases "print_values py_str event") auto
  show ?case
  proof (cases r)
    case None
    with Cons pv show ?thesis by (auto split: prod.splits)
  next
    case (Some e')
    with Cons.prems pv have "snd (print_values py_str event) = Some e" by simp
    then show ?thesis by (rule print_values_errors)
  qed
qed

lemma stream_graph_updates_errors:
  assumes "snd (stream_graph_updates py_str graph_stream user_input) = Some e"
  shows "\<not> raised_by_notebook e"
proof -
  obtain events failure where
    g: "graph_stream \<lparr>messages = Some [HumanMessage (PStr user_input)], others = []\<rparr>
          = (events, failure)"
    by (cases "graph_stream \<lparr>messages = Some [HumanMessage (PStr user_input)], others = []\<rparr>") auto
  obtain out r where pe: "print_events py_str events = (out, r)"
    by (cases "print_events py_str events") auto
  show ?thesis
  proof (cases r)
    case None
    with assms g pe show ?thesis by (auto simp: stream_graph_updates_def)
  next
    case (Some e')
    with assms g pe have "snd (print_events py_str events) = Some e"
      by (simp add: stream_graph_updates_def)
    then show ?thesis by (rule print_events_errors)
  qed
qed

text \<open>
  C3, as stated, makes the guard of \<open>BasicToolNode\<close> the only error the notebooks raise
  themselves. The router has a \<^verbatim>\<open>raise ValueError\<close> of its own, with another message,
  and the model node of part 5 has an \<^verbatim>\<open>assert\<close>.
\<close>

theorem route_tools_raises:
  "route_tools ''__end__'' (\<lambda>d. ''{}'') (StateDict \<lparr>messages = None, others = []\<rparr>)
     = Inl (ValueError ''No messages found in input state to tool_edge: {}'')
   \<and> raised_by_notebook (ValueError ''No messages found in input state to tool_edge: {}'')
   \<and> ValueError ''No messages found in input state to tool_edge: {}''
       \<noteq> ValueError ''No message found in input''
   \<and> chatbot_part_5
       (\<lambda>h. AIMessage (PStr '''') [ToolCall ''a'' (PDict []) (Some ''c1''), ToolCall ''b'' (PDict []) (Some ''c2'')])
       \<lparr>messages = Some [HumanMessage (PStr ''hi'')], others = []\<rparr> = Inl AssertionError
   \<and> raised_by_notebook AssertionError"
  by (simp add: route_tools_def chatbot_part_5_def)

text \<open>
  C3 (amended). The code of the notebooks raises errors of its own in three places: the
  guard \<open>ValueError("No message found in input")\<close> of \<open>BasicToolNode.__call__\<close>, the guard
  \<open>ValueError("No messages found in input state to tool_edge: ...")\<close> of \<open>route_tools\<close> on a
  dictionary state whose messages are missing or empty, and the \<open>AssertionError\<close> of the
  assertion in the model node of part 5. The model node of part 2, \<open>human_assistance\<close>
  and \<open>stream_graph_updates\<close> raise no error of their own: whatever they fail with comes
  from the Python runtime or from the libraries.
\<close>

theorem notebook_errors:
  "(snd (BasicToolNode_call js self inputs) = Inl e \<and> raised_by_notebook e \<longrightarrow>
       e = ValueError ''No message found in input'')
   \<and> (route_tools END str_state st = Inl e \<and> raised_by_notebook e \<longrightarrow>
       (\<exists>d. st = StateDict d \<and> (messages d = None \<or> messages d = Some [])
          \<and> e = ValueError (''No messages found in input state to tool_edge: '' @ str_state d)))
   \<and> (chatbot_part_5 llm state = Inl e \<and> raised_by_notebook e \<longrightarrow> e = AssertionError)
   \<and> (chatbot llm state = Inl e \<longrightarrow> \<not> raised_by_notebook e)
   \<and> (human_assistance str_payload name birthday tool_call_id resume = Inl e \<longrightarrow>
       \<not> raised_by_notebook e)
   \<and> (snd (stream_graph_updates str_content graph_stream user_input) = Some e \<longrightarrow>
       \<not> raised_by_notebook e)"
proof -
  have tool: "e = ValueError ''No message found in input''"
    if "snd (BasicToolNode_call js self inputs) = Inl e" and "raised_by_notebook e"
  proof (cases "truthy (dict_get inputs ''messages'' (PList []))")
    case False
    with that show ?thesis by (auto simp: BasicToolNode_call_def)
  next
    case True
    show ?thesis
    proof (cases "py_last (dict_get inputs ''messages'' (PList []))")
      case (Inl e')
      with that(1) True have "e = e'" by (simp add: BasicToolNode_call_def)
      with py_last_errors [OF Inl] that(2) show ?thesis by auto
    next
      case (Inr message)
      show ?thesis
      proof (cases "attr_tool_calls message")
        case None
        with that True Inr show ?thesis by (auto simp: BasicToolNode_call_def)
      next
        case (Some tcs)
        obtain invoked res where run: "tool_loop js (tools_by_name self) tcs [] [] = (invoked, res)"
          by (cases "tool_loop js (tools_by_name self) tcs [] []") auto
        with that(1) True Inr Some have "res = Inl e"
          by (cases res) (simp_all add: BasicToolNode_call_def)
        with run have "snd (tool_loop js (tools_by_name self) tcs [] []) = Inl e" by simp
        from tool_loop_errors [OF this] that(2) show ?thesis by auto
      qed
    qed
  qed
  have route: "\<exists>d. st = StateDict d \<and> (messages d = None \<or> messages d = Some [])
          \<and> e = ValueError (''No messages found in input state to tool_edge: '' @ str_state d)"
    if "route_tools END str_state st = Inl e" and "raised_by_notebook e"
    using that
    by (cases st)
       (auto simp: route_tools_def Let_def split: if_splits option.splits sum.splits)
  have part5: "e = AssertionError"
    if "chatbot_part_5 llm state = Inl e" and "raised_by_notebook e"
    using that by (auto simp: chatbot_part_5_def Let_def split: option.splits if_splits)
  have part2: "\<not> raised_by_notebook e" if "chatbot llm state = Inl e"
    using that by (auto simp: chatbot_def split: option.splits)
  have human: "\<not> raised_by_notebook e"
    if "human_assistance str_payload name birthday tool_call_id resume = Inl e"
    using that
    by (auto simp: human_assistance_def Let_def split: option.splits pyval.splits if_splits)
  have stream: "\<not> raised_by_notebook e"
    if "snd (stream_graph_updates str_content graph_stream user_input) = Some e"
    using that by (rule stream_graph_updates_errors)
  from tool route part5 part2 human stream show ?thesis by blast
qed

theorem notebook_errors_witness:
  "\<exists>d. StateDict \<lparr>messages = None, others = []\<rparr> = StateDict d
       \<and> (messages d = None \<or> messages d = Some [])
       \<and> ValueError ''No messages found in input state to tool_edge: {}''
           = ValueError (''No messages found in input state to tool_edge: '' @ ''{}'')"
proof -
  have "route_tools ''__end__'' (\<lambda>d. ''{}'') (StateDict \<lparr>messages = None, others = []\<rparr>)
          = Inl (ValueError ''No messages found in input state to tool_edge: {}'')
        \<and> raised_by_notebook (ValueError ''No messages found in input state to tool_edge: {}'')"
    by (simp add: route_tools_def)
  then show ?thesis
    by (rule notebook_errors [THEN conjunct2, THEN conjunct1, THEN mp])
qed

end
